theory Spec2Isabelle
  imports Main
begin

section \<open>The provider library, as far as the constructs use it\<close>

text \<open>
  The repository is a set of TypeScript classes over a cloud construct library.  A
  constructor of the source runs a fixed sequence of library calls: it instantiates
  resources under a construct path and, for a security group, adds ingress rules to
  it.  The model threads the sequence of these calls through every constructor, in
  the order of the source's statements, and keeps for each resource a record of the
  properties the source passes.

  Optional properties of the source (\<open>readonly x?: T\<close>) are \<open>T option\<close>; the
  source's \<open>x ?? d\<close> is the \<open>case\<close> that takes \<open>d\<close> for \<open>None\<close> only.
  Numbers are \<open>int\<close>.  A resource that another resource refers to is referred
  to by its path, so that a later change of the resource (an added ingress rule) is
  seen through every reference.  Where two classes of the source use one property
  name, the fields carry a prefix (\<open>db_\<close>, \<open>jh_\<close>, \<open>app_\<close>, \<open>svc_\<close>, ...).

  Left out: the tags the constructors add to their resources, the subnet lists the
  network construct copies from the library's VPC, and the text of the bastion's
  bootstrap commands.  None of them is read again by the code modelled here.
\<close>

type_synonym path = string

datatype peer = AnyIpv4 | GroupPeer path

datatype port = Tcp int

record ingress_rule =
  rule_peer :: peer
  rule_port :: port
  rule_description :: string

datatype call =
    New string path
  | Lookup string path
  | AddIngressRule path ingress_rule

text \<open>
  What a constructor can fail with: a TypeError of JavaScript (a property read on
  \<open>undefined\<close>), and the two errors the library raises on the numbers it is given,
  a ValidationError of the service and a RangeError of the scaling target.
\<close>

datatype error = TypeError | ValidationError | RangeError

text \<open>
  Values that only the provider knows (attributes of the created resources).  The
  source reads them from the library objects; the model takes them as a parameter.
\<close>

record provider =
  instanceEndpoint_hostname :: string
  instanceEndpoint_port :: int
  secretArn :: string
  instanceId :: string
  instancePublicIp :: string
  loadBalancerDnsName :: string
  repositoryUri :: string

text \<open>JavaScript's \<open>xs[0]\<close>: \<open>undefined\<close> (here \<open>None\<close>) on an empty array.\<close>

definition first :: "'a list \<Rightarrow> 'a option" where
  "first xs = (case xs of [] \<Rightarrow> None | x # _ \<Rightarrow> Some x)"

subsection \<open>Security groups\<close>

record security_group =
  sg_path :: path
  sg_vpc :: path
  sg_description :: string
  allowAllOutbound :: bool
  ingressRules :: "ingress_rule list"

text \<open>
  \<open>new ec2.SecurityGroup(scope, cid, {vpc, description, allowAllOutbound})\<close>: the
  group starts with the ingress rules the source gives it, that is none.
\<close>

definition SecurityGroup ::
  "path \<Rightarrow> path \<Rightarrow> string \<Rightarrow> bool \<Rightarrow> call list \<Rightarrow> security_group \<times> call list" where
  "SecurityGroup p v d out calls =
     (\<lparr>sg_path = p, sg_vpc = v, sg_description = d, allowAllOutbound = out,
       ingressRules = []\<rparr>,
      calls @ [New ''ec2.SecurityGroup'' p])"

text \<open>
  \<open>group.addIngressRule(peer, port, description)\<close>: one request on the group,
  recorded in the sequence of calls.  The library skips a request whose peer and port
  are already on the group (the description is not compared); otherwise the group
  gains the rule.
\<close>

definition addIngressRule ::
  "security_group \<Rightarrow> peer \<Rightarrow> port \<Rightarrow> string \<Rightarrow> call list \<Rightarrow> security_group \<times> call list" where
  "addIngressRule g pe po d calls =
     (let r = \<lparr>rule_peer = pe, rule_port = po, rule_description = d\<rparr>
      in ((if \<exists>q\<in>set (ingressRules g). rule_peer q = pe \<and> rule_port q = po
           then g
           else g\<lparr>ingressRules := ingressRules g @ [r]\<rparr>),
          calls @ [AddIngressRule (sg_path g) r]))"

section \<open>NetworkConstruct\<close>

record NetworkConstructProps =
  maxAzs :: "int option"
  natGateways :: "int option"

datatype SubnetType = PUBLIC | PRIVATE_WITH_EGRESS | PRIVATE_ISOLATED

record subnet_configuration =
  cidrMask :: int
  subnet_name :: string
  subnetType :: SubnetType

record vpc =
  vpc_path :: path
  vpc_maxAzs :: int
  vpc_natGateways :: int
  subnetConfiguration :: "subnet_configuration list"
  enableDnsHostnames :: bool
  enableDnsSupport :: bool

record network =
  net_vpc :: vpc

definition NetworkConstruct ::
  "path \<Rightarrow> NetworkConstructProps \<Rightarrow> call list \<Rightarrow> network \<times> call list" where
  "NetworkConstruct cid props calls =
     (let maxAzs' = (case maxAzs props of None \<Rightarrow> 2 | Some n \<Rightarrow> n);
          natGateways' = (case natGateways props of None \<Rightarrow> 1 | Some n \<Rightarrow> n);
          v = \<lparr>vpc_path = cid @ ''/Vpc'',
               vpc_maxAzs = maxAzs',
               vpc_natGateways = natGateways',
               subnetConfiguration =
                 [\<lparr>cidrMask = 24, subnet_name = ''Public'', subnetType = PUBLIC\<rparr>,
                  \<lparr>cidrMask = 24, subnet_name = ''Private'', subnetType = PRIVATE_WITH_EGRESS\<rparr>,
                  \<lparr>cidrMask = 24, subnet_name = ''Database'', subnetType = PRIVATE_ISOLATED\<rparr>],
               enableDnsHostnames = True,
               enableDnsSupport = True\<rparr>
      in (\<lparr>net_vpc = v\<rparr>, calls @ [New ''ec2.Vpc'' (vpc_path v)]))"

section \<open>DnsConstruct\<close>

record DnsConstructProps =
  domainName :: string
  subdomainName :: "string option"
  subjectAlternativeNames :: "string list option"

record hosted_zone =
  zone_path :: path
  zone_domainName :: string

record certificate =
  cert_path :: path
  cert_domainName :: string
  cert_subjectAlternativeNames :: "string list"
  cert_validation :: path

record dns =
  dns_path :: path
  hostedZone :: hosted_zone
  dns_certificate :: certificate
  fullDomainName :: string

definition DnsConstruct ::
  "path \<Rightarrow> DnsConstructProps \<Rightarrow> call list \<Rightarrow> dns \<times> call list" where
  "DnsConstruct cid props calls =
     (let subdomainName' = (case subdomainName props of None \<Rightarrow> ''spring'' | Some s \<Rightarrow> s);
          full = subdomainName' @ ''.'' @ domainName props;
          zone = \<lparr>zone_path = cid @ ''/HostedZone'', zone_domainName = domainName props\<rparr>;
          calls1 = calls @ [Lookup ''route53.HostedZone'' (zone_path zone)];
          cert = \<lparr>cert_path = cid @ ''/Certificate'',
                  cert_domainName = full,
                  cert_subjectAlternativeNames =
                    (case subjectAlternativeNames props of
                       None \<Rightarrow> [''*.'' @ domainName props]
                     | Some ns \<Rightarrow> ns),
                  cert_validation = zone_path zone\<rparr>;
          calls2 = calls1 @ [New ''acm.Certificate'' (cert_path cert)]
      in (\<lparr>dns_path = cid, hostedZone = zone, dns_certificate = cert, fullDomainName = full\<rparr>,
          calls2))"

text \<open>
  \<open>createARecord(target)\<close>: the record name is the part of the full name before its
  first dot (\<open>split('.')[0]\<close>).
\<close>

record a_record =
  arec_path :: path
  arec_zone :: path
  recordName :: string
  arec_target :: path

definition createARecord :: "dns \<Rightarrow> path \<Rightarrow> call list \<Rightarrow> a_record \<times> call list" where
  "createARecord d target calls =
     (let r = \<lparr>arec_path = dns_path d @ ''/ARecord'',
               arec_zone = zone_path (hostedZone d),
               recordName = takeWhile (\<lambda>c. c \<noteq> CHR ''.'') (fullDomainName d),
               arec_target = target\<rparr>
      in (r, calls @ [New ''route53.ARecord'' (arec_path r)]))"

section \<open>DatabaseConstruct\<close>

record DatabaseConstructProps =
  db_vpc :: vpc
  databaseName :: "string option"
  username :: "string option"
  db_instanceType :: "string option"
  allocatedStorage :: "int option"
  maxAllocatedStorage :: "int option"
  deletionProtection :: "bool option"

text \<open>
  The secret's template is \<open>JSON.stringify({ username: username })\<close>; the record
  keeps the username the template is built from.
\<close>

record secret =
  secret_path :: path
  secret_username :: string
  generateStringKey :: string
  excludeCharacters :: string
  passwordLength :: int
  secret_description :: string
  secret_arn :: string

datatype RemovalPolicy = RETAIN | DESTROY

record database_instance =
  inst_path :: path
  engine :: string
  inst_instanceType :: string
  inst_vpc :: path
  inst_subnetType :: SubnetType
  credentials :: path
  inst_databaseName :: string
  inst_allocatedStorage :: int
  inst_maxAllocatedStorage :: int
  deleteAutomatedBackups :: bool
  backupRetention_days :: int
  inst_deletionProtection :: bool
  removalPolicy :: RemovalPolicy
  inst_securityGroups :: "path list"
  monitoringInterval_minutes :: int
  enablePerformanceInsights :: bool
  endpoint_hostname :: string
  endpoint_port :: int

record database =
  db_instance :: database_instance
  db_secret :: secret
  db_securityGroup :: security_group
  db_endpoint :: string
  db_port :: int

definition DatabaseConstruct ::
  "path \<Rightarrow> DatabaseConstructProps \<Rightarrow> provider \<Rightarrow> call list \<Rightarrow> database \<times> call list" where
  "DatabaseConstruct cid props prov calls =
     (let databaseName' = (case databaseName props of None \<Rightarrow> ''springbootdb'' | Some s \<Rightarrow> s);
          username' = (case username props of None \<Rightarrow> ''springboot'' | Some s \<Rightarrow> s);
          instanceType' = (case db_instanceType props of None \<Rightarrow> ''t3.micro'' | Some t \<Rightarrow> t);
          allocatedStorage' = (case allocatedStorage props of None \<Rightarrow> 20 | Some n \<Rightarrow> n);
          maxAllocatedStorage' = (case maxAllocatedStorage props of None \<Rightarrow> 100 | Some n \<Rightarrow> n);
          deletionProtection' = (case deletionProtection props of None \<Rightarrow> False | Some b \<Rightarrow> b);
          sec = \<lparr>secret_path = cid @ ''/Secret'',
                 secret_username = username',
                 generateStringKey = ''password'',
                 excludeCharacters = [CHR 0x22, CHR ''@'', CHR ''/'', CHR 0x5C, CHR 0x27],
                 passwordLength = 16,
                 secret_description = ''Database credentials for Spring Boot application'',
                 secret_arn = secretArn prov\<rparr>;
          calls1 = calls @ [New ''secretsmanager.Secret'' (secret_path sec)];
          (sg, calls2) =
            SecurityGroup (cid @ ''/SecurityGroup'') (vpc_path (db_vpc props))
              ''Security group for RDS database'' False calls1;
          inst = \<lparr>inst_path = cid @ ''/Instance'',
                  engine = ''postgres 15.4'',
                  inst_instanceType = instanceType',
                  inst_vpc = vpc_path (db_vpc props),
                  inst_subnetType = PRIVATE_ISOLATED,
                  credentials = secret_path sec,
                  inst_databaseName = databaseName',
                  inst_allocatedStorage = allocatedStorage',
                  inst_maxAllocatedStorage = maxAllocatedStorage',
                  deleteAutomatedBackups = True,
                  backupRetention_days = 7,
                  inst_deletionProtection = deletionProtection',
                  removalPolicy = (if deletionProtection' then RETAIN else DESTROY),
                  inst_securityGroups = [sg_path sg],
                  monitoringInterval_minutes = 1,
                  enablePerformanceInsights = True,
                  endpoint_hostname = instanceEndpoint_hostname prov,
                  endpoint_port = instanceEndpoint_port prov\<rparr>;
          calls3 = calls2 @ [New ''rds.DatabaseInstance'' (inst_path inst)]
      in (\<lparr>db_instance = inst, db_secret = sec, db_securityGroup = sg,
           db_endpoint = endpoint_hostname inst, db_port = endpoint_port inst\<rparr>,
          calls3))"

text \<open>
  \<open>allowConnectionsFrom(source, description?)\<close>.  The source is a security group
  itself, or another connectable whose first security group is taken
  (\<open>source.connections.securityGroups[0]\<close>); when that array is empty the peer is
  \<open>undefined\<close> and the library call on it fails with a TypeError.
\<close>

datatype connectable =
    SecurityGroupSource security_group
  | OtherConnectable "security_group list"

text \<open>
  The first argument of the library call:
  \<open>source instanceof ec2.SecurityGroup ? source : source.connections.securityGroups[0]\<close>.
\<close>

definition grant_source :: "connectable \<Rightarrow> security_group option" where
  "grant_source source =
     (case source of
        SecurityGroupSource g \<Rightarrow> Some g
      | OtherConnectable gs \<Rightarrow> first gs)"

definition allowConnectionsFrom ::
  "database \<Rightarrow> connectable \<Rightarrow> string option \<Rightarrow> call list \<Rightarrow> error + database \<times> call list" where
  "allowConnectionsFrom db source description calls =
     (case grant_source source of
        None \<Rightarrow> Inl TypeError
      | Some g \<Rightarrow>
          (let (sg, calls1) =
                 addIngressRule (db_securityGroup db) (GroupPeer (sg_path g)) (Tcp (db_port db))
                   (case description of None \<Rightarrow> ''Allow database connection'' | Some d \<Rightarrow> d)
                   calls
           in Inr (db\<lparr>db_securityGroup := sg\<rparr>, calls1)))"

section \<open>JumphostConstruct\<close>

record JumphostConstructProps =
  jh_vpc :: vpc
  jh_instanceType :: "string option"
  keyPairName :: "string option"
  allowSshFromAnywhere :: "bool option"

record key_pair =
  kp_path :: path
  kp_keyPairName :: string
  kp_type :: string
  kp_format :: string

record role =
  role_path :: path
  assumedBy :: string
  role_description :: string
  managedPolicies :: "string list"

text \<open>
  The instance's user data is the fixed command list of \<open>setupUserData\<close>; it takes
  no property of the construct and is left out of the record.
\<close>

record ec2_instance =
  ei_path :: path
  ei_vpc :: path
  ei_subnetType :: SubnetType
  ei_instanceType :: string
  machineImage :: string
  ei_keyPair :: path
  ei_securityGroup :: path
  ei_role :: path
  userDataCausesReplacement :: bool
  ei_instanceId :: string
  ei_instancePublicIp :: string

record jumphost =
  jh_instance :: ec2_instance
  jh_securityGroup :: security_group
  jh_keyPair :: key_pair

definition JumphostConstruct ::
  "path \<Rightarrow> JumphostConstructProps \<Rightarrow> provider \<Rightarrow> call list \<Rightarrow> jumphost \<times> call list" where
  "JumphostConstruct cid props prov calls =
     (let instanceType' = (case jh_instanceType props of None \<Rightarrow> ''t3.micro'' | Some t \<Rightarrow> t);
          keyPairName' =
            (case keyPairName props of None \<Rightarrow> ''springboot-jumphost-key'' | Some k \<Rightarrow> k);
          allowSshFromAnywhere' =
            (case allowSshFromAnywhere props of None \<Rightarrow> True | Some b \<Rightarrow> b);
          kp = \<lparr>kp_path = cid @ ''/KeyPair'', kp_keyPairName = keyPairName',
                kp_type = ''rsa'', kp_format = ''pem''\<rparr>;
          calls1 = calls @ [New ''ec2.KeyPair'' (kp_path kp)];
          (sg0, calls2) =
            SecurityGroup (cid @ ''/SecurityGroup'') (vpc_path (jh_vpc props))
              ''Security group for EC2 jumphost'' True calls1;
          (sg, calls3) =
            (if allowSshFromAnywhere'
             then addIngressRule sg0 AnyIpv4 (Tcp 22) ''Allow SSH access from anywhere'' calls2
             else (sg0, calls2));
          jumphostRole =
            \<lparr>role_path = cid @ ''/Role'',
             assumedBy = ''ec2.amazonaws.com'',
             role_description = ''IAM role for jumphost instance'',
             managedPolicies = [''AmazonSSMManagedInstanceCore'', ''CloudWatchAgentServerPolicy'']\<rparr>;
          calls4 = calls3 @ [New ''iam.Role'' (role_path jumphostRole)];
          inst = \<lparr>ei_path = cid @ ''/Instance'',
                  ei_vpc = vpc_path (jh_vpc props),
                  ei_subnetType = PUBLIC,
                  ei_instanceType = instanceType',
                  machineImage = ''latestAmazonLinux2023'',
                  ei_keyPair = kp_path kp,
                  ei_securityGroup = sg_path sg,
                  ei_role = role_path jumphostRole,
                  userDataCausesReplacement = True,
                  ei_instanceId = instanceId prov,
                  ei_instancePublicIp = instancePublicIp prov\<rparr>;
          calls5 = calls4 @ [New ''ec2.Instance'' (ei_path inst)]
      in (\<lparr>jh_instance = inst, jh_securityGroup = sg, jh_keyPair = kp\<rparr>, calls5))"

definition publicIp :: "jumphost \<Rightarrow> string" where
  "publicIp j = ei_instancePublicIp (jh_instance j)"

definition jumphost_instanceId :: "jumphost \<Rightarrow> string" where
  "jumphost_instanceId j = ei_instanceId (jh_instance j)"

section \<open>ApplicationConstruct\<close>

record ApplicationConstructProps =
  app_vpc :: vpc
  app_certificate :: certificate
  databaseEndpoint :: string
  databasePort :: int
  databaseSecret :: secret
  app_databaseName :: string
  githubRepo :: "string option"
  desiredCount :: "int option"
  cpu :: "int option"
  memoryLimitMiB :: "int option"
  minCapacity :: "int option"
  maxCapacity :: "int option"

record repository =
  repo_path :: path
  repositoryName :: string
  imageScanOnPush :: bool
  maxImageCount :: int
  repo_removalPolicy :: RemovalPolicy
  repo_uri :: string

record log_group =
  lg_path :: path
  logGroupName :: string
  retention_days :: int
  lg_removalPolicy :: RemovalPolicy

record cluster =
  cluster_path :: path
  cluster_vpc :: path
  clusterName :: string
  containerInsights :: bool

text \<open>A value of the container's environment: a string, or a number's \<open>toString()\<close>.\<close>

datatype env_value = Text string | NumberText int

record health_check =
  hc_path :: string
  healthyHttpCodes :: string
  interval_seconds :: int
  timeout_seconds :: int
  healthyThresholdCount :: int
  unhealthyThresholdCount :: int

record scaling_policy =
  policy_id :: string
  targetUtilizationPercent :: int
  scaleInCooldown_minutes :: int
  scaleOutCooldown_minutes :: int

record scaling =
  scal_minCapacity :: int
  scal_maxCapacity :: int
  policies :: "scaling_policy list"

text \<open>
  The load-balanced Fargate service of the library.  The library gives the service
  one security group of its own (all outbound allowed, described by its path) and a
  load balancer; the health check and the scaling are set after construction.  The
  library's constructor refuses a \<open>desiredCount\<close> below 1 with a ValidationError.
\<close>

record fargate_service =
  svc_path :: path
  svc_cluster :: path
  serviceName :: string
  svc_cpu :: int
  svc_memoryLimitMiB :: int
  svc_desiredCount :: int
  image_buildArgs :: "(string \<times> string) list"
  containerPort :: int
  environment :: "(string \<times> env_value) list"
  secrets :: "(string \<times> path \<times> string) list"
  publicLoadBalancer :: bool
  listenerPort :: int
  protocol :: string
  svc_certificate :: path
  redirectHTTP :: bool
  healthCheck :: "health_check option"
  autoScaling :: "scaling option"
  svc_securityGroups :: "security_group list"
  svc_loadBalancer :: path
  svc_loadBalancerDnsName :: string

record application =
  app_cluster :: cluster
  app_service :: fargate_service
  app_repository :: repository
  app_logGroup :: log_group

text \<open>
  \<open>setupAutoScaling(minCapacity, maxCapacity)\<close>.  Its first statement,
  \<open>autoScaleTaskCount\<close>, creates the library's scalable target, whose constructor
  raises a RangeError for a negative \<open>maxCapacity\<close>, a negative \<open>minCapacity\<close> or
  \<open>maxCapacity < minCapacity\<close>; then no scaling policy is created.
\<close>

definition setupAutoScaling ::
  "fargate_service \<Rightarrow> int \<Rightarrow> int \<Rightarrow> call list \<Rightarrow> (error + fargate_service) \<times> call list" where
  "setupAutoScaling svc minCapacity' maxCapacity' calls =
     (if maxCapacity' < 0 \<or> minCapacity' < 0 \<or> maxCapacity' < minCapacity'
      then (Inl RangeError, calls)
      else
      let target = svc_path svc @ ''/Service/TaskCount/Target'';
          calls1 = calls @ [New ''appscaling.ScalableTarget'' target];
          cpuScaling = \<lparr>policy_id = ''CpuScaling'', targetUtilizationPercent = 70,
                        scaleInCooldown_minutes = 5, scaleOutCooldown_minutes = 2\<rparr>;
          calls2 = calls1 @ [New ''appscaling.TargetTrackingScalingPolicy'' (target @ ''/CpuScaling'')];
          memoryScaling = \<lparr>policy_id = ''MemoryScaling'', targetUtilizationPercent = 80,
                           scaleInCooldown_minutes = 5, scaleOutCooldown_minutes = 2\<rparr>;
          calls3 = calls2 @ [New ''appscaling.TargetTrackingScalingPolicy'' (target @ ''/MemoryScaling'')]
      in (Inr (svc\<lparr>autoScaling :=
                      Some \<lparr>scal_minCapacity = minCapacity', scal_maxCapacity = maxCapacity',
                            policies = [cpuScaling, memoryScaling]\<rparr>\<rparr>),
          calls3))"

text \<open>
  The constructor.  It compares none of the counts itself; it can fail where the
  library does: at the creation of the service, after the registry, the log group and
  the cluster have been created, and in \<open>setupAutoScaling\<close>, after the service has
  been created.  What was created before a failure stays in the sequence of calls.
\<close>

definition ApplicationConstruct ::
  "path \<Rightarrow> ApplicationConstructProps \<Rightarrow> provider \<Rightarrow> call list \<Rightarrow> (error + application) \<times> call list" where
  "ApplicationConstruct cid props prov calls =
     (let githubRepo' =
            (case githubRepo props of
               None \<Rightarrow> ''https://github.com/integrationninjas/springboot-example.git''
             | Some r \<Rightarrow> r);
          desiredCount' = (case desiredCount props of None \<Rightarrow> 2 | Some n \<Rightarrow> n);
          cpu' = (case cpu props of None \<Rightarrow> 512 | Some n \<Rightarrow> n);
          memoryLimitMiB' = (case memoryLimitMiB props of None \<Rightarrow> 1024 | Some n \<Rightarrow> n);
          minCapacity' = (case minCapacity props of None \<Rightarrow> 1 | Some n \<Rightarrow> n);
          maxCapacity' = (case maxCapacity props of None \<Rightarrow> 10 | Some n \<Rightarrow> n);
          repo = \<lparr>repo_path = cid @ ''/Repository'',
                  repositoryName = ''spring-boot-app'',
                  imageScanOnPush = True,
                  maxImageCount = 10,
                  repo_removalPolicy = DESTROY,
                  repo_uri = repositoryUri prov\<rparr>;
          calls1 = calls @ [New ''ecr.Repository'' (repo_path repo)];
          lg = \<lparr>lg_path = cid @ ''/LogGroup'',
                logGroupName = ''/ecs/spring-boot-app'',
                retention_days = 7,
                lg_removalPolicy = DESTROY\<rparr>;
          calls2 = calls1 @ [New ''logs.LogGroup'' (lg_path lg)];
          cl = \<lparr>cluster_path = cid @ ''/Cluster'',
                cluster_vpc = vpc_path (app_vpc props),
                clusterName = ''spring-boot-cluster'',
                containerInsights = True\<rparr>;
          calls3 = calls2 @ [New ''ecs.Cluster'' (cluster_path cl)]
      in if desiredCount' < 1 then (Inl ValidationError, calls3)
         else
         let
          svc0 = \<lparr>svc_path = cid @ ''/Service'',
                  svc_cluster = cluster_path cl,
                  serviceName = ''spring-boot-service'',
                  svc_cpu = cpu',
                  svc_memoryLimitMiB = memoryLimitMiB',
                  svc_desiredCount = desiredCount',
                  image_buildArgs = [(''GITHUB_REPO'', githubRepo')],
                  containerPort = 8080,
                  environment =
                    [(''SPRING_PROFILES_ACTIVE'', Text ''prod''),
                     (''SERVER_PORT'', Text ''8080''),
                     (''DATABASE_HOST'', Text (databaseEndpoint props)),
                     (''DATABASE_PORT'', NumberText (databasePort props)),
                     (''DATABASE_NAME'', Text (app_databaseName props))],
                  secrets =
                    [(''DATABASE_USERNAME'', secret_path (databaseSecret props), ''username''),
                     (''DATABASE_PASSWORD'', secret_path (databaseSecret props), ''password'')],
                  publicLoadBalancer = True,
                  listenerPort = 443,
                  protocol = ''HTTPS'',
                  svc_certificate = cert_path (app_certificate props),
                  redirectHTTP = True,
                  healthCheck = None,
                  autoScaling = None,
                  svc_securityGroups =
                    [\<lparr>sg_path = cid @ ''/Service/Service/SecurityGroup'',
                      sg_vpc = cluster_vpc cl,
                      sg_description = cid @ ''/Service/Service/SecurityGroup'',
                      allowAllOutbound = True,
                      ingressRules = []\<rparr>],
                  svc_loadBalancer = cid @ ''/Service/LB'',
                  svc_loadBalancerDnsName = loadBalancerDnsName prov\<rparr>;
          calls4 = calls3 @
            [New ''ecsPatterns.ApplicationLoadBalancedFargateService'' (svc_path svc0),
             New ''ec2.SecurityGroup'' (cid @ ''/Service/Service/SecurityGroup'')];
          svc1 = svc0\<lparr>healthCheck :=
                   Some \<lparr>hc_path = ''/'', healthyHttpCodes = ''200'', interval_seconds = 30,
                         timeout_seconds = 5, healthyThresholdCount = 2,
                         unhealthyThresholdCount = 3\<rparr>\<rparr>
         in case setupAutoScaling svc1 minCapacity' maxCapacity' calls4 of
              (Inl e, calls5) \<Rightarrow> (Inl e, calls5)
            | (Inr svc2, calls5) \<Rightarrow>
                (Inr \<lparr>app_cluster = cl, app_service = svc2, app_repository = repo,
                      app_logGroup = lg\<rparr>,
                 calls5))"

definition app_loadBalancerDnsName :: "application \<Rightarrow> string" where
  "app_loadBalancerDnsName a = svc_loadBalancerDnsName (app_service a)"

definition app_loadBalancer :: "application \<Rightarrow> path" where
  "app_loadBalancer a = svc_loadBalancer (app_service a)"

definition app_securityGroup :: "application \<Rightarrow> security_group option" where
  "app_securityGroup a = first (svc_securityGroups (app_service a))"

section \<open>EcsProjectStack\<close>

record EcsProjectStackProps =
  stack_domainName :: "string option"
  stack_subdomainName :: "string option"

record cfn_output =
  out_id :: string
  out_value :: string
  out_description :: string

record stack =
  st_network :: network
  st_dns :: dns
  st_database :: database
  st_jumphost :: jumphost
  st_application :: application
  st_arecord :: a_record
  outputs :: "cfn_output list"
  st_calls :: "call list"

definition CfnOutput :: "string \<Rightarrow> string \<Rightarrow> string \<Rightarrow> cfn_output" where
  "CfnOutput i v d = \<lparr>out_id = i, out_value = v, out_description = d\<rparr>"

definition createOutputs ::
  "dns \<Rightarrow> database \<Rightarrow> jumphost \<Rightarrow> application \<Rightarrow> call list \<Rightarrow> cfn_output list \<times> call list" where
  "createOutputs d db j a calls =
     (let outs =
        [CfnOutput ''ApplicationURL'' (''https://'' @ fullDomainName d)
           ''HTTPS URL of the Spring Boot application'',
         CfnOutput ''LoadBalancerDNS'' (app_loadBalancerDnsName a)
           ''DNS name of the load balancer'',
         CfnOutput ''ClusterName'' (clusterName (app_cluster a))
           ''Name of the ECS cluster'',
         CfnOutput ''ECRRepositoryURI'' (repo_uri (app_repository a))
           ''ECR Repository URI'',
         CfnOutput ''DatabaseEndpoint'' (db_endpoint db)
           ''RDS Database endpoint'',
         CfnOutput ''DatabaseSecretArn'' (secret_arn (db_secret db))
           ''Database credentials secret ARN'',
         CfnOutput ''JumphostInstanceId'' (jumphost_instanceId j)
           ''EC2 Jumphost instance ID'',
         CfnOutput ''JumphostPublicIP'' (publicIp j)
           ''EC2 Jumphost public IP address'',
         CfnOutput ''SSHKeyPairName'' (kp_keyPairName (jh_keyPair j))
           ''SSH Key Pair name for jumphost access'']
      in (outs, calls @ map (\<lambda>out. New ''cdk.CfnOutput'' (out_id out)) outs))"

text \<open>
  The stack's constructor.  Construct paths are relative to the stack.  A failure of
  the application construct ends the constructor.  The second grant takes the
  application's security group from its getter, which reads the first element of an
  array; on \<open>undefined\<close> the call would fail with a TypeError.
\<close>

definition EcsProjectStack :: "EcsProjectStackProps \<Rightarrow> provider \<Rightarrow> error + stack" where
  "EcsProjectStack props prov =
     (let domainName' = (case stack_domainName props of None \<Rightarrow> ''oazis.site'' | Some d \<Rightarrow> d);
          subdomainName' = (case stack_subdomainName props of None \<Rightarrow> ''spring'' | Some s \<Rightarrow> s);
          (network, calls1) =
            NetworkConstruct ''Network'' \<lparr>maxAzs = Some 2, natGateways = Some 1\<rparr> [];
          (dns, calls2) =
            DnsConstruct ''Dns''
              \<lparr>domainName = domainName', subdomainName = Some subdomainName',
               subjectAlternativeNames = None\<rparr> calls1;
          (database, calls3) =
            DatabaseConstruct ''Database''
              \<lparr>db_vpc = net_vpc network, databaseName = Some ''springbootdb'',
               username = Some ''springboot'', db_instanceType = None,
               allocatedStorage = None, maxAllocatedStorage = None,
               deletionProtection = Some False\<rparr> prov calls2;
          (jumphost, calls4) =
            JumphostConstruct ''Jumphost''
              \<lparr>jh_vpc = net_vpc network, jh_instanceType = None,
               keyPairName = Some ''springboot-jumphost-key'',
               allowSshFromAnywhere = None\<rparr> prov calls3
      in case allowConnectionsFrom database (SecurityGroupSource (jh_securityGroup jumphost))
                (Some ''Allow jumphost to connect to database'') calls4 of
           Inl e \<Rightarrow> Inl e
         | Inr (database1, calls5) \<Rightarrow>
             (case ApplicationConstruct ''Application''
                      \<lparr>app_vpc = net_vpc network,
                       app_certificate = dns_certificate dns,
                       databaseEndpoint = db_endpoint database1,
                       databasePort = db_port database1,
                       databaseSecret = db_secret database1,
                       app_databaseName = ''springbootdb'',
                       githubRepo = None,
                       desiredCount = Some 2, cpu = None, memoryLimitMiB = None,
                       minCapacity = Some 1, maxCapacity = Some 10\<rparr> prov calls5 of
                (Inl e, calls6) \<Rightarrow> Inl e
              | (Inr application, calls6) \<Rightarrow>
                  (case app_securityGroup application of
                     None \<Rightarrow> Inl TypeError
                   | Some g \<Rightarrow>
                       (case allowConnectionsFrom database1 (SecurityGroupSource g)
                               (Some ''Allow ECS service to connect to database'') calls6 of
                          Inl e \<Rightarrow> Inl e
                        | Inr (database2, calls7) \<Rightarrow>
                            (let (arecord, calls8) =
                                   createARecord dns (app_loadBalancer application) calls7;
                                 (outs, calls9) =
                                   createOutputs dns database2 jumphost application calls8
                             in Inr \<lparr>st_network = network, st_dns = dns,
                                     st_database = database2, st_jumphost = jumphost,
                                     st_application = application, st_arecord = arecord,
                                     outputs = outs, st_calls = calls9\<rparr>)))))"

text \<open>The value published under an output key.\<close>

definition output_value :: "stack \<Rightarrow> string \<Rightarrow> string option" where
  "output_value s k = map_of (map (\<lambda>out. (out_id out, out_value out)) (outputs s)) k"

section \<open>Reading the sequence of calls\<close>







text \<open>A client of the database component: a sequence of \<open>allowConnectionsFrom\<close> calls.\<close>

fun allowConnectionsFromAll ::
  "database \<Rightarrow> (connectable \<times> string option) list \<Rightarrow> call list \<Rightarrow> error + database \<times> call list" where
  "allowConnectionsFromAll db [] calls = Inr (db, calls)"
| "allowConnectionsFromAll db ((source, description) # rest) calls =
     (case allowConnectionsFrom db source description calls of
        Inl e \<Rightarrow> Inl e
      | Inr (db1, calls1) \<Rightarrow> allowConnectionsFromAll db1 rest calls1)"

text \<open>
  The rule a grant \<open>(source, description)\<close> asks for on a database: from the
  source's group, on the database's port, with the given or the default description;
  none when the source has no group.
\<close>

definition requested_rule :: "database \<Rightarrow> connectable \<times> string option \<Rightarrow> ingress_rule option" where
  "requested_rule db g =
     (case g of
        (source, description) \<Rightarrow>
          (case grant_source source of
             None \<Rightarrow> None
           | Some sg \<Rightarrow>
               Some \<lparr>rule_peer = GroupPeer (sg_path sg),
                     rule_port = Tcp (db_port db),
                     rule_description =
                       (case description of
                          None \<Rightarrow> ''Allow database connection''
                        | Some d \<Rightarrow> d)\<rparr>))"

text \<open>Two rules that the library takes for the same rule: same peer, same port.\<close>

definition same_rule :: "ingress_rule \<Rightarrow> ingress_rule \<Rightarrow> bool" where
  "same_rule r q = (rule_peer r = rule_peer q \<and> rule_port r = rule_port q)"

text \<open>
  The calls of one complete run of the application construct, in the order of its
  statements.
\<close>

definition application_calls :: "path \<Rightarrow> call list" where
  "application_calls cid =
     [New ''ecr.Repository'' (cid @ ''/Repository''),
      New ''logs.LogGroup'' (cid @ ''/LogGroup''),
      New ''ecs.Cluster'' (cid @ ''/Cluster''),
      New ''ecsPatterns.ApplicationLoadBalancedFargateService'' (cid @ ''/Service''),
      New ''ec2.SecurityGroup'' (cid @ ''/Service/Service/SecurityGroup''),
      New ''appscaling.ScalableTarget'' (cid @ ''/Service/Service/TaskCount/Target''),
      New ''appscaling.TargetTrackingScalingPolicy''
        (cid @ ''/Service/Service/TaskCount/Target/CpuScaling''),
      New ''appscaling.TargetTrackingScalingPolicy''
        (cid @ ''/Service/Service/TaskCount/Target/MemoryScaling'')]"

section \<open>Example inputs\<close>

definition example_provider :: provider where
  "example_provider =
     \<lparr>instanceEndpoint_hostname = ''db.example.internal'',
      instanceEndpoint_port = 5432,
      secretArn = ''arn:aws:secretsmanager:secret'',
      instanceId = ''i-0123'',
      instancePublicIp = ''203.0.113.10'',
      loadBalancerDnsName = ''lb.example.internal'',
      repositoryUri = ''registry.example.internal/spring-boot-app''\<rparr>"

definition example_vpc :: vpc where
  "example_vpc =
     net_vpc (fst (NetworkConstruct ''Network'' \<lparr>maxAzs = None, natGateways = None\<rparr> []))"

definition example_dns_props :: DnsConstructProps where
  "example_dns_props =
     \<lparr>domainName = ''example.com'', subdomainName = None, subjectAlternativeNames = None\<rparr>"

definition example_database_props :: DatabaseConstructProps where
  "example_database_props =
     \<lparr>db_vpc = example_vpc, databaseName = None, username = None, db_instanceType = None,
      allocatedStorage = None, maxAllocatedStorage = None, deletionProtection = None\<rparr>"

definition example_jumphost_props :: JumphostConstructProps where
  "example_jumphost_props =
     \<lparr>jh_vpc = example_vpc, jh_instanceType = None, keyPairName = None,
      allowSshFromAnywhere = None\<rparr>"

text \<open>Scenario B of the specification: \<open>minCapacity 1, maxCapacity 1, desiredCount 2\<close>.\<close>

definition scenario_B :: ApplicationConstructProps where
  "scenario_B =
     (let dns = fst (DnsConstruct ''Dns'' example_dns_props []);
          db = fst (DatabaseConstruct ''Database'' example_database_props example_provider [])
      in \<lparr>app_vpc = example_vpc,
          app_certificate = dns_certificate dns,
          databaseEndpoint = db_endpoint db,
          databasePort = db_port db,
          databaseSecret = db_secret db,
          app_databaseName = ''springbootdb'',
          githubRepo = None,
          desiredCount = Some 2, cpu = None, memoryLimitMiB = None,
          minCapacity = Some 1, maxCapacity = Some 1\<rparr>)"

text \<open>Inside the claimed domain, and refused by the library: \<open>5 > 2\<close> and \<open>3 > 2\<close>.\<close>

definition scenario_min_above_max :: ApplicationConstructProps where
  "scenario_min_above_max =
     scenario_B\<lparr>desiredCount := Some 5, minCapacity := Some 3, maxCapacity := Some 2\<rparr>"

text \<open>
  Two grants: from the bastion's group with a description, and from a connectable
  holding the groups of a service without one.
\<close>

definition example_bastion_grant :: "connectable \<times> string option" where
  "example_bastion_grant =
     (SecurityGroupSource
        (jh_securityGroup
           (fst (JumphostConstruct ''Jumphost'' example_jumphost_props example_provider []))),
      Some ''Allow jumphost to connect to database'')"

definition example_service_grant :: "connectable \<times> string option" where
  "example_service_grant =
     (OtherConnectable
        (case fst (ApplicationConstruct ''Application'' scenario_B example_provider []) of
           Inl e \<Rightarrow> []
         | Inr a \<Rightarrow> svc_securityGroups (app_service a)),
      None)"

definition example_grants :: "(connectable \<times> string option) list" where
  "example_grants = [example_bastion_grant, example_service_grant]"

definition example_stack_props :: EcsProjectStackProps where
  "example_stack_props =
     \<lparr>stack_domainName = Some ''example.com'', stack_subdomainName = Some ''api''\<rparr>"

section \<open>Properties\<close>

subsection \<open>Auxiliary facts\<close>

lemmas construct_defs =
  NetworkConstruct_def DnsConstruct_def DatabaseConstruct_def
  JumphostConstruct_def SecurityGroup_def addIngressRule_def allowConnectionsFrom_def
  grant_source_def
  ApplicationConstruct_def setupAutoScaling_def app_securityGroup_def first_def
  createARecord_def createOutputs_def CfnOutput_def


lemma EcsProjectStack_outputs:
  "\<exists>s. EcsProjectStack props prov = Inr s \<and>
     output_value s ''ApplicationURL'' =
       Some (''https://'' @
             (case stack_subdomainName props of None \<Rightarrow> ''spring'' | Some x \<Rightarrow> x) @ ''.'' @
             (case stack_domainName props of None \<Rightarrow> ''oazis.site'' | Some d \<Rightarrow> d))"
  by (simp add: EcsProjectStack_def construct_defs output_value_def Let_def)

lemma EcsProjectStack_database_rules:
  "\<exists>s. EcsProjectStack props prov = Inr s \<and>
     ingressRules (db_securityGroup (st_database s)) =
       [\<lparr>rule_peer = GroupPeer ''Jumphost/SecurityGroup'',
         rule_port = Tcp (instanceEndpoint_port prov),
         rule_description = ''Allow jumphost to connect to database''\<rparr>,
        \<lparr>rule_peer = GroupPeer ''Application/Service/Service/SecurityGroup'',
         rule_port = Tcp (instanceEndpoint_port prov),
         rule_description = ''Allow ECS service to connect to database''\<rparr>]"
  by (simp add: EcsProjectStack_def construct_defs Let_def)

lemma EcsProjectStack_application_counts:
  "\<exists>s. EcsProjectStack props prov = Inr s \<and>
     svc_desiredCount (app_service (st_application s)) = 2 \<and>
     map_option scal_minCapacity (autoScaling (app_service (st_application s))) = Some 1 \<and>
     map_option scal_maxCapacity (autoScaling (app_service (st_application s))) = Some 10"
  by (simp add: EcsProjectStack_def construct_defs Let_def)

lemma ApplicationConstruct_service_refused:
  "(case desiredCount props of None \<Rightarrow> 2 | Some n \<Rightarrow> n) < 1 \<Longrightarrow>
   ApplicationConstruct cid props prov calls =
     (Inl ValidationError, calls @ take 3 (application_calls cid))"
  by (simp add: ApplicationConstruct_def application_calls_def Let_def)

lemma ApplicationConstruct_scaling_refused:
  "1 \<le> (case desiredCount props of None \<Rightarrow> 2 | Some n \<Rightarrow> n) \<Longrightarrow>
   (case minCapacity props of None \<Rightarrow> 1 | Some n \<Rightarrow> n) < 0 \<or>
   (case maxCapacity props of None \<Rightarrow> 10 | Some n \<Rightarrow> n) <
     (case minCapacity props of None \<Rightarrow> 1 | Some n \<Rightarrow> n) \<Longrightarrow>
   ApplicationConstruct cid props prov calls =
     (Inl RangeError, calls @ take 5 (application_calls cid))"
  by (auto simp add: ApplicationConstruct_def setupAutoScaling_def application_calls_def Let_def)

lemma ApplicationConstruct_accepted:
  "1 \<le> (case desiredCount props of None \<Rightarrow> 2 | Some n \<Rightarrow> n) \<Longrightarrow>
   0 \<le> (case minCapacity props of None \<Rightarrow> 1 | Some n \<Rightarrow> n) \<Longrightarrow>
   (case minCapacity props of None \<Rightarrow> 1 | Some n \<Rightarrow> n) \<le>
     (case maxCapacity props of None \<Rightarrow> 10 | Some n \<Rightarrow> n) \<Longrightarrow>
   \<exists>a. ApplicationConstruct cid props prov calls = (Inr a, calls @ application_calls cid) \<and>
       svc_desiredCount (app_service a) = (case desiredCount props of None \<Rightarrow> 2 | Some n \<Rightarrow> n) \<and>
       map_option scal_minCapacity (autoScaling (app_service a)) =
         Some (case minCapacity props of None \<Rightarrow> 1 | Some n \<Rightarrow> n) \<and>
       map_option scal_maxCapacity (autoScaling (app_service a)) =
         Some (case maxCapacity props of None \<Rightarrow> 10 | Some n \<Rightarrow> n)"
  by (simp add: ApplicationConstruct_def setupAutoScaling_def application_calls_def Let_def)

lemma allowConnectionsFrom_Inr:
  assumes "allowConnectionsFrom db g_source description calls = Inr (db1, calls1)"
  shows "\<exists>q. requested_rule db (g_source, description) = Some q \<and>
           db1 = db\<lparr>db_securityGroup :=
                      (if \<exists>r\<in>set (ingressRules (db_securityGroup db)). same_rule r q
                       then db_securityGroup db
                       else (db_securityGroup db)\<lparr>ingressRules :=
                              ingressRules (db_securityGroup db) @ [q]\<rparr>)\<rparr> \<and>
           calls1 = calls @ [AddIngressRule (sg_path (db_securityGroup db)) q]"
  using assms
  by (auto simp add: allowConnectionsFrom_def addIngressRule_def requested_rule_def
        same_rule_def Let_def split: option.splits if_splits)

lemma allowConnectionsFrom_requested:
  "requested_rule db (g_source, description) = Some q \<Longrightarrow>
   allowConnectionsFrom db g_source description calls =
     Inr (db\<lparr>db_securityGroup :=
               (if \<exists>r\<in>set (ingressRules (db_securityGroup db)). same_rule r q
                then db_securityGroup db
                else (db_securityGroup db)\<lparr>ingressRules :=
                       ingressRules (db_securityGroup db) @ [q]\<rparr>)\<rparr>,
          calls @ [AddIngressRule (sg_path (db_securityGroup db)) q])"
  by (auto simp add: allowConnectionsFrom_def addIngressRule_def requested_rule_def
        same_rule_def Let_def split: option.splits)

lemma allowConnectionsFromAll_rules:
  "allowConnectionsFromAll db gs calls = Inr (db1, calls1) \<Longrightarrow>
     \<exists>new reqs.
       ingressRules (db_securityGroup db1) = ingressRules (db_securityGroup db) @ new \<and>
       (\<forall>r\<in>set new. \<exists>g\<in>set gs. requested_rule db g = Some r) \<and>
       (\<forall>g\<in>set gs. \<exists>q. requested_rule db g = Some q \<and>
          (\<exists>r\<in>set (ingressRules (db_securityGroup db) @ new). same_rule r q)) \<and>
       (\<forall>r\<in>set new. \<forall>r0\<in>set (ingressRules (db_securityGroup db)). \<not> same_rule r0 r) \<and>
       distinct (map (\<lambda>r. (rule_peer r, rule_port r)) new) \<and>
       length new \<le> length gs \<and>
       calls1 = calls @ reqs \<and>
       list_all2 (\<lambda>g c. \<exists>q. requested_rule db g = Some q \<and>
                    c = AddIngressRule (sg_path (db_securityGroup db)) q) gs reqs \<and>
       allowAllOutbound (db_securityGroup db1) = allowAllOutbound (db_securityGroup db) \<and>
       sg_path (db_securityGroup db1) = sg_path (db_securityGroup db) \<and>
       db_port db1 = db_port db"
proof (induction gs arbitrary: db calls)
  case Nil
  then show ?case by simp
next
  case (Cons a gs)
  obtain g_source description where a: "a = (g_source, description)" by (cases a)
  from Cons.prems a obtain db2 calls2 where
    step: "allowConnectionsFrom db g_source description calls = Inr (db2, calls2)" and
    rest: "allowConnectionsFromAll db2 gs calls2 = Inr (db1, calls1)"
    by (auto split: sum.splits)
  let ?old = "ingressRules (db_securityGroup db)"
  from allowConnectionsFrom_Inr [OF step] obtain q where
    q: "requested_rule db a = Some q" and
    db2: "db2 = db\<lparr>db_securityGroup :=
                      (if \<exists>r\<in>set ?old. same_rule r q
                       then db_securityGroup db
                       else (db_securityGroup db)\<lparr>ingressRules := ?old @ [q]\<rparr>)\<rparr>" and
    calls2: "calls2 = calls @ [AddIngressRule (sg_path (db_securityGroup db)) q]"
    unfolding a by blast
  have same: "requested_rule db2 = requested_rule db"
    by (simp add: requested_rule_def db2 fun_eq_iff split: option.splits)
  have frame: "allowAllOutbound (db_securityGroup db2) = allowAllOutbound (db_securityGroup db)"
    "sg_path (db_securityGroup db2) = sg_path (db_securityGroup db)" "db_port db2 = db_port db"
    by (simp_all add: db2)
  from Cons.IH [OF rest] obtain new reqs where
    new: "ingressRules (db_securityGroup db1) = ingressRules (db_securityGroup db2) @ new"
      "\<forall>r\<in>set new. \<exists>g\<in>set gs. requested_rule db g = Some r"
      "\<forall>g\<in>set gs. \<exists>q. requested_rule db g = Some q \<and>
          (\<exists>r\<in>set (ingressRules (db_securityGroup db2) @ new). same_rule r q)"
      "\<forall>r\<in>set new. \<forall>r0\<in>set (ingressRules (db_securityGroup db2)). \<not> same_rule r0 r"
      "distinct (map (\<lambda>r. (rule_peer r, rule_port r)) new)"
      "length new \<le> length gs"
      "calls1 = calls2 @ reqs"
      "list_all2 (\<lambda>g c. \<exists>q. requested_rule db g = Some q \<and>
                    c = AddIngressRule (sg_path (db_securityGroup db)) q) gs reqs"
      "allowAllOutbound (db_securityGroup db1) = allowAllOutbound (db_securityGroup db)"
      "sg_path (db_securityGroup db1) = sg_path (db_securityGroup db)"
      "db_port db1 = db_port db"
    unfolding same frame by blast
  show ?case
  proof (cases "\<exists>r\<in>set ?old. same_rule r q")
    case True
    then have old2: "ingressRules (db_securityGroup db2) = ?old"
      by (simp add: db2)
    show ?thesis
      apply (rule exI [of _ new])
      apply (rule exI [of _ "AddIngressRule (sg_path (db_securityGroup db)) q # reqs"])
      using new True q unfolding old2
      by (auto simp add: calls2)
  next
    case False
    then have old2: "ingressRules (db_securityGroup db2) = ?old @ [q]"
      by (simp add: db2)
    have key: "(rule_peer q, rule_port q) \<notin> (\<lambda>r. (rule_peer r, rule_port r)) ` set new"
      using new(4) unfolding old2 by (auto simp add: same_rule_def)
    have qq: "same_rule q q" by (simp add: same_rule_def)
    show ?thesis
      apply (rule exI [of _ "q # new"])
      apply (rule exI [of _ "AddIngressRule (sg_path (db_securityGroup db)) q # reqs"])
      using new False q key qq unfolding old2
      by (auto simp add: calls2)
  qed
qed

lemma example_database_fresh:
  "DatabaseConstruct ''Database'' example_database_props example_provider [] = (db0, calls0) \<Longrightarrow>
   db_port db0 = 5432 \<and> ingressRules (db_securityGroup db0) = [] \<and> length calls0 = 3"
  by (auto simp add: DatabaseConstruct_def SecurityGroup_def example_provider_def Let_def)

lemma example_bastion_grant_rule:
  "db_port db = 5432 \<Longrightarrow>
   requested_rule db example_bastion_grant =
     Some \<lparr>rule_peer = GroupPeer ''Jumphost/SecurityGroup'', rule_port = Tcp 5432,
           rule_description = ''Allow jumphost to connect to database''\<rparr>"
  by (simp add: requested_rule_def example_bastion_grant_def grant_source_def
        JumphostConstruct_def SecurityGroup_def addIngressRule_def Let_def
        example_jumphost_props_def)

lemma example_service_grant_rule:
  "db_port db = 5432 \<Longrightarrow>
   requested_rule db example_service_grant =
     Some \<lparr>rule_peer = GroupPeer ''Application/Service/Service/SecurityGroup'',
           rule_port = Tcp 5432,
           rule_description = ''Allow database connection''\<rparr>"
proof -
  have b: "desiredCount scenario_B = Some 2" "minCapacity scenario_B = Some 1"
    "maxCapacity scenario_B = Some 1"
    by (simp_all add: scenario_B_def Let_def)
  have "first (case fst (ApplicationConstruct ''Application'' scenario_B example_provider []) of
           Inl e \<Rightarrow> []
         | Inr a \<Rightarrow> svc_securityGroups (app_service a)) =
        Some \<lparr>sg_path = ''Application/Service/Service/SecurityGroup'',
              sg_vpc = vpc_path (app_vpc scenario_B),
              sg_description = ''Application/Service/Service/SecurityGroup'',
              allowAllOutbound = True,
              ingressRules = []\<rparr>"
    by (simp add: ApplicationConstruct_def setupAutoScaling_def b first_def Let_def)
  then show "db_port db = 5432 \<Longrightarrow> ?thesis"
    by (simp add: requested_rule_def example_service_grant_def grant_source_def)
qed




subsection \<open>Application: the counts are checked by the library only\<close>

text \<open>
  C1, as stated: a configuration whose \<open>desiredCount\<close> exceeds \<open>maxCapacity\<close> is
  rejected before any provisioning call.  There is no validation step.  With
  \<open>minCapacity 1, maxCapacity 1, desiredCount 2\<close> the application construct succeeds:
  it makes all its provisioning calls and declares a service of 2 tasks with a scaling
  maximum of 1.
\<close>

theorem C1_scenario_B_counterexample:
  "desiredCount scenario_B = Some 2 \<and> maxCapacity scenario_B = Some 1 \<and>
   (case ApplicationConstruct ''Application'' scenario_B example_provider [] of
      (Inl e, calls) \<Rightarrow> False
    | (Inr a, calls) \<Rightarrow>
        svc_desiredCount (app_service a) = 2 \<and>
        map_option scal_maxCapacity (autoScaling (app_service a)) = Some 1 \<and>
        calls = application_calls ''Application'')"
proof -
  have b: "desiredCount scenario_B = Some 2" "minCapacity scenario_B = Some 1"
    "maxCapacity scenario_B = Some 1"
    by (simp_all add: scenario_B_def Let_def)
  from b ApplicationConstruct_accepted [of scenario_B "''Application''" example_provider "[]"]
  show ?thesis by auto
qed

text \<open>
  C1, amended: a configuration is never rejected because \<open>desiredCount\<close> exceeds
  \<open>maxCapacity\<close>, and never before provisioning starts: the registry, the log group
  and the cluster are created for every configuration.  With the defaults 2, 1 and 10
  applied, the construct fails only where the library does: for \<open>desiredCount < 1\<close>
  when the service is created (after these three calls), and for a negative
  \<open>minCapacity\<close> or \<open>maxCapacity < minCapacity\<close> when scaling is set up (after
  five calls).  Every other configuration is accepted, whether or not \<open>desiredCount\<close>
  exceeds \<open>maxCapacity\<close>: all eight calls are made and the three counts are forwarded
  unchanged.  The stack takes no counts from its caller: it always configures 2, 1
  and 10, which are accepted.
\<close>

theorem C1_counts_checked_by_library_only:
  assumes "d = (case desiredCount props of None \<Rightarrow> 2 | Some n \<Rightarrow> n)"
    and "lo = (case minCapacity props of None \<Rightarrow> 1 | Some n \<Rightarrow> n)"
    and "hi = (case maxCapacity props of None \<Rightarrow> 10 | Some n \<Rightarrow> n)"
  shows
    "(case ApplicationConstruct cid props prov calls of
        (res, calls1) \<Rightarrow>
          (\<exists>rest. calls1 = calls @ take 3 (application_calls cid) @ rest) \<and>
          (d < 1 \<longrightarrow>
             res = Inl ValidationError \<and> calls1 = calls @ take 3 (application_calls cid)) \<and>
          (1 \<le> d \<and> (lo < 0 \<or> hi < lo) \<longrightarrow>
             res = Inl RangeError \<and> calls1 = calls @ take 5 (application_calls cid)) \<and>
          (1 \<le> d \<and> 0 \<le> lo \<and> lo \<le> hi \<longrightarrow>
             (\<exists>a. res = Inr a \<and>
                svc_desiredCount (app_service a) = d \<and>
                map_option scal_minCapacity (autoScaling (app_service a)) = Some lo \<and>
                map_option scal_maxCapacity (autoScaling (app_service a)) = Some hi) \<and>
             calls1 = calls @ application_calls cid)) \<and>
     (\<exists>s. EcsProjectStack sprops sprov = Inr s \<and>
        svc_desiredCount (app_service (st_application s)) = 2 \<and>
        map_option scal_minCapacity (autoScaling (app_service (st_application s))) = Some 1 \<and>
        map_option scal_maxCapacity (autoScaling (app_service (st_application s))) = Some 10)"
proof -
  consider (service) "d < 1" | (scaling) "1 \<le> d" "lo < 0 \<or> hi < lo"
    | (accepted) "1 \<le> d" "0 \<le> lo" "lo \<le> hi"
    by linarith
  then have "case ApplicationConstruct cid props prov calls of
        (res, calls1) \<Rightarrow>
          (\<exists>rest. calls1 = calls @ take 3 (application_calls cid) @ rest) \<and>
          (d < 1 \<longrightarrow>
             res = Inl ValidationError \<and> calls1 = calls @ take 3 (application_calls cid)) \<and>
          (1 \<le> d \<and> (lo < 0 \<or> hi < lo) \<longrightarrow>
             res = Inl RangeError \<and> calls1 = calls @ take 5 (application_calls cid)) \<and>
          (1 \<le> d \<and> 0 \<le> lo \<and> lo \<le> hi \<longrightarrow>
             (\<exists>a. res = Inr a \<and>
                svc_desiredCount (app_service a) = d \<and>
                map_option scal_minCapacity (autoScaling (app_service a)) = Some lo \<and>
                map_option scal_maxCapacity (autoScaling (app_service a)) = Some hi) \<and>
             calls1 = calls @ application_calls cid)"
  proof cases
    case service
    with assms ApplicationConstruct_service_refused [of props cid prov calls]
    show ?thesis by simp
  next
    case scaling
    with assms ApplicationConstruct_scaling_refused [of props cid prov calls]
    show ?thesis by (auto simp add: application_calls_def)
  next
    case accepted
    with assms ApplicationConstruct_accepted [of props cid prov calls]
    show ?thesis by (auto simp add: application_calls_def)
  qed
  with EcsProjectStack_application_counts [of sprops sprov] show ?thesis by blast
qed

theorem C1_counts_checked_by_library_only_witness:
  "(1::int) \<le> 2 \<and> (0::int) \<le> 1 \<and> (1::int) \<le> 1 \<and>
   (case ApplicationConstruct ''Application'' scenario_B example_provider [] of
      (res, calls1) \<Rightarrow>
        (\<exists>a. res = Inr a \<and>
           svc_desiredCount (app_service a) = 2 \<and>
           map_option scal_minCapacity (autoScaling (app_service a)) = Some 1 \<and>
           map_option scal_maxCapacity (autoScaling (app_service a)) = Some 1) \<and>
        calls1 = application_calls ''Application'') \<and>
   (1::int) \<le> 5 \<and> (2::int) < 3 \<and>
   (case ApplicationConstruct ''Application'' scenario_min_above_max example_provider [] of
      (res, calls1) \<Rightarrow>
        res = Inl RangeError \<and> calls1 = take 5 (application_calls ''Application'')) \<and>
   (0::int) < 1 \<and>
   (case ApplicationConstruct ''Application'' (scenario_B\<lparr>desiredCount := Some 0\<rparr>)
           example_provider [] of
      (res, calls1) \<Rightarrow>
        res = Inl ValidationError \<and> calls1 = take 3 (application_calls ''Application''))"
proof -
  have b: "desiredCount scenario_B = Some 2" "minCapacity scenario_B = Some 1"
    "maxCapacity scenario_B = Some 1"
    by (simp_all add: scenario_B_def Let_def)
  have c: "desiredCount scenario_min_above_max = Some 5"
    "minCapacity scenario_min_above_max = Some 3" "maxCapacity scenario_min_above_max = Some 2"
    by (simp_all add: scenario_min_above_max_def)
  from b have 1: "2 = (case desiredCount scenario_B of None \<Rightarrow> 2 | Some n \<Rightarrow> n)"
    "1 = (case minCapacity scenario_B of None \<Rightarrow> 1 | Some n \<Rightarrow> n)"
    "1 = (case maxCapacity scenario_B of None \<Rightarrow> 10 | Some n \<Rightarrow> n)"
    by simp_all
  from c have 2: "5 = (case desiredCount scenario_min_above_max of None \<Rightarrow> 2 | Some n \<Rightarrow> n)"
    "3 = (case minCapacity scenario_min_above_max of None \<Rightarrow> 1 | Some n \<Rightarrow> n)"
    "2 = (case maxCapacity scenario_min_above_max of None \<Rightarrow> 10 | Some n \<Rightarrow> n)"
    by simp_all
  from b have 3:
    "0 = (case desiredCount (scenario_B\<lparr>desiredCount := Some 0\<rparr>) of None \<Rightarrow> 2 | Some n \<Rightarrow> n)"
    "1 = (case minCapacity (scenario_B\<lparr>desiredCount := Some 0\<rparr>) of None \<Rightarrow> 1 | Some n \<Rightarrow> n)"
    "1 = (case maxCapacity (scenario_B\<lparr>desiredCount := Some 0\<rparr>) of None \<Rightarrow> 10 | Some n \<Rightarrow> n)"
    by simp_all
  show ?thesis
    using C1_counts_checked_by_library_only
        [where props = scenario_B and cid = "''Application''" and prov = example_provider
           and calls = "[]" and sprops = example_stack_props and sprov = example_provider,
         OF 1]
      C1_counts_checked_by_library_only
        [where props = scenario_min_above_max and cid = "''Application''" and prov = example_provider
           and calls = "[]" and sprops = example_stack_props and sprov = example_provider,
         OF 2]
      C1_counts_checked_by_library_only
        [where props = "scenario_B\<lparr>desiredCount := Some 0\<rparr>" and cid = "''Application''" and prov = example_provider
           and calls = "[]" and sprops = example_stack_props and sprov = example_provider,
         OF 3]
    by (simp add: split_beta)
qed

subsection \<open>Network: counts are forwarded, not checked\<close>

text \<open>
  C2, as stated: a network configuration with \<open>azCount < 1\<close> or
  \<open>natGatewayCount > azCount\<close> fails with a configuration error before provisioning
  starts.  The constructor has no check.  With \<open>maxAzs = 0\<close> and \<open>natGateways = 1\<close>
  (both conditions at once) it issues the VPC creation and passes both numbers on.
\<close>

theorem C2_network_counterexample:
  "(case NetworkConstruct ''Network'' \<lparr>maxAzs = Some 0, natGateways = Some 1\<rparr> [] of
      (n, calls) \<Rightarrow>
        vpc_maxAzs (net_vpc n) = 0 \<and> vpc_natGateways (net_vpc n) = 1 \<and>
        calls = [New ''ec2.Vpc'' ''Network/Vpc''])"
  by (simp add: NetworkConstruct_def)

text \<open>
  C2, amended: for every configuration the network construct issues the VPC creation
  call and forwards \<open>maxAzs\<close> (default 2) and \<open>natGateways\<close> (default 1) unchanged,
  whatever their values.
\<close>

theorem C2_network_forwards_counts:
  "(case NetworkConstruct cid props calls of
      (n, calls1) \<Rightarrow>
        vpc_maxAzs (net_vpc n) = (case maxAzs props of None \<Rightarrow> 2 | Some a \<Rightarrow> a) \<and>
        vpc_natGateways (net_vpc n) = (case natGateways props of None \<Rightarrow> 1 | Some g \<Rightarrow> g) \<and>
        calls1 = calls @ [New ''ec2.Vpc'' (cid @ ''/Vpc'')])"
  by (simp add: NetworkConstruct_def Let_def)

theorem C2_network_forwards_counts_witness:
  "(case NetworkConstruct ''Network'' \<lparr>maxAzs = Some 2, natGateways = Some 3\<rparr> [] of
      (n, calls1) \<Rightarrow>
        vpc_maxAzs (net_vpc n) = 2 \<and> vpc_natGateways (net_vpc n) = 3 \<and>
        calls1 = [New ''ec2.Vpc'' ''Network/Vpc''])"
  using C2_network_forwards_counts
    [where cid = "''Network''" and props = "\<lparr>maxAzs = Some 2, natGateways = Some 3\<rparr>"
       and calls = "[]"]
  by simp

subsection \<open>DNS: defaults\<close>

text \<open>
  C3, as stated: with the subdomain absent the full name is \<open>app.<domain>\<close>.  The
  constructor's default is \<open>spring\<close>: for the domain \<open>example.com\<close> the full name
  is \<open>spring.example.com\<close>.
\<close>

theorem C3_dns_counterexample:
  "fullDomainName (fst (DnsConstruct ''Dns'' example_dns_props [])) = ''spring.example.com'' \<and>
   fullDomainName (fst (DnsConstruct ''Dns'' example_dns_props [])) \<noteq> ''app.'' @ ''example.com''"
  by (simp add: DnsConstruct_def example_dns_props_def Let_def)

text \<open>
  C3, amended: when the subdomain is absent it defaults to \<open>spring\<close>, so the full
  name (and the certificate's domain name) is \<open>spring.\<close> followed by the domain; when
  the alternative names are absent they default to \<open>[*.<domain>]\<close>.
\<close>

theorem C3_dns_defaults:
  "(subdomainName props = None \<longrightarrow>
      fullDomainName (fst (DnsConstruct cid props calls)) = ''spring.'' @ domainName props \<and>
      cert_domainName (dns_certificate (fst (DnsConstruct cid props calls))) =
        ''spring.'' @ domainName props) \<and>
   (subjectAlternativeNames props = None \<longrightarrow>
      cert_subjectAlternativeNames (dns_certificate (fst (DnsConstruct cid props calls))) =
        [''*.'' @ domainName props])"
  by (simp add: DnsConstruct_def Let_def)

theorem C3_dns_defaults_witness:
  "subdomainName example_dns_props = None \<and>
   subjectAlternativeNames example_dns_props = None \<and>
   fullDomainName (fst (DnsConstruct ''Dns'' example_dns_props [])) = ''spring.example.com'' \<and>
   cert_domainName (dns_certificate (fst (DnsConstruct ''Dns'' example_dns_props []))) =
     ''spring.example.com'' \<and>
   cert_subjectAlternativeNames (dns_certificate (fst (DnsConstruct ''Dns'' example_dns_props []))) =
     [''*.example.com'']"
  using C3_dns_defaults [where props = example_dns_props and cid = "''Dns''" and calls = "[]"]
  by (simp add: example_dns_props_def)

subsection \<open>Database: defaults\<close>

text \<open>
  C4, as stated: an absent database name defaults to \<open>appdb\<close> and an absent username
  to \<open>appuser\<close>.  The constructor's defaults are \<open>springbootdb\<close> and
  \<open>springboot\<close>.
\<close>

theorem C4_database_counterexample:
  "(case DatabaseConstruct ''Database'' example_database_props example_provider [] of
      (db, calls) \<Rightarrow>
        inst_databaseName (db_instance db) = ''springbootdb'' \<and>
        inst_databaseName (db_instance db) \<noteq> ''appdb'' \<and>
        secret_username (db_secret db) = ''springboot'' \<and>
        secret_username (db_secret db) \<noteq> ''appuser'')"
  by (simp add: DatabaseConstruct_def SecurityGroup_def example_database_props_def Let_def)

text \<open>
  C4, amended: when the name is absent the instance's database name is
  \<open>springbootdb\<close>, and when the username is absent the secret's username is
  \<open>springboot\<close>.
\<close>

theorem C4_database_defaults:
  "(case DatabaseConstruct cid props prov calls of
      (db, calls1) \<Rightarrow>
        (databaseName props = None \<longrightarrow> inst_databaseName (db_instance db) = ''springbootdb'') \<and>
        (username props = None \<longrightarrow> secret_username (db_secret db) = ''springboot''))"
  by (simp add: DatabaseConstruct_def SecurityGroup_def Let_def)

theorem C4_database_defaults_witness:
  "databaseName example_database_props = None \<and>
   username example_database_props = None \<and>
   (case DatabaseConstruct ''Database'' example_database_props example_provider [] of
      (db, calls1) \<Rightarrow>
        inst_databaseName (db_instance db) = ''springbootdb'' \<and>
        secret_username (db_secret db) = ''springboot'')"
  using C4_database_defaults
    [where cid = "''Database''" and props = example_database_props
       and prov = example_provider and calls = "[]"]
  by (simp add: example_database_props_def split: prod.splits)

subsection \<open>Database: security boundary\<close>

text \<open>
  C7, as stated: the only way an inbound rule is added to the database's group is
  \<open>allowConnectionsFrom\<close>, and each call appends exactly one rule.  Two calls for the
  same source both succeed and leave one rule: the library skips the second request.
  And the group is a public field of the construct: a rule request made on it directly
  adds a rule without any \<open>allowConnectionsFrom\<close> call.
\<close>

theorem C7_grant_twice_counterexample:
  "(case DatabaseConstruct ''Database'' example_database_props example_provider [] of
      (db0, calls0) \<Rightarrow>
        (case allowConnectionsFromAll db0 [example_bastion_grant, example_bastion_grant] calls0 of
           Inl e \<Rightarrow> False
         | Inr (db, calls1) \<Rightarrow>
             length (ingressRules (db_securityGroup db)) = 1 \<and>
             length calls1 = length calls0 + 2) \<and>
        ingressRules
          (fst (addIngressRule (db_securityGroup db0) AnyIpv4 (Tcp 5432) ''direct'' calls0)) =
          [\<lparr>rule_peer = AnyIpv4, rule_port = Tcp 5432, rule_description = ''direct''\<rparr>])"
proof -
  obtain db0 calls0 where
    a: "DatabaseConstruct ''Database'' example_database_props example_provider [] = (db0, calls0)"
    by (cases "DatabaseConstruct ''Database'' example_database_props example_provider []")
  note f = example_database_fresh [OF a]
  obtain bsrc bdesc where g: "example_bastion_grant = (bsrc, bdesc)"
    by (cases example_bastion_grant)
  from f show ?thesis
    using example_bastion_grant_rule [unfolded g]
    by (simp add: a g allowConnectionsFrom_requested same_rule_def addIngressRule_def Let_def)
qed

text \<open>
  C7, amended: for every database configuration the security group is created with
  outbound traffic not allowed and without ingress rules.  Every successful
  \<open>allowConnectionsFrom\<close> call makes exactly one rule request on the database's
  group, from the group of its source on the database's port, and nothing else; the
  group gains the rule unless it already has one with the same peer and port.  So after
  any sequence of such calls on the new database outbound is still not allowed, every
  ingress rule is the rule requested by one of the calls, every call's source has a
  rule with its peer and port, no two rules share peer and port, and there are at most
  as many rules as calls.  In the stack the database's group ends with exactly the rules
  of its two \<open>allowConnectionsFrom\<close> calls.  That no other code adds rules is a
  property of the callers: the construct does not prevent it.
\<close>

theorem C7_database_boundary_rules:
  assumes "DatabaseConstruct cid props prov calls = (db0, calls0)"
    and "allowConnectionsFromAll db0 gs calls0 = Inr (db, calls1)"
  shows "allowAllOutbound (db_securityGroup db0) = False \<and>
         ingressRules (db_securityGroup db0) = [] \<and>
         allowAllOutbound (db_securityGroup db) = False \<and>
         (\<forall>r\<in>set (ingressRules (db_securityGroup db)).
            \<exists>g\<in>set gs. requested_rule db0 g = Some r) \<and>
         (\<forall>g\<in>set gs. \<exists>q. requested_rule db0 g = Some q \<and>
            (\<exists>r\<in>set (ingressRules (db_securityGroup db)). same_rule r q)) \<and>
         distinct (map (\<lambda>r. (rule_peer r, rule_port r)) (ingressRules (db_securityGroup db))) \<and>
         length (ingressRules (db_securityGroup db)) \<le> length gs \<and>
         (\<exists>reqs. calls1 = calls0 @ reqs \<and>
            list_all2 (\<lambda>g c. \<exists>q. requested_rule db0 g = Some q \<and>
                         c = AddIngressRule (cid @ ''/SecurityGroup'') q) gs reqs) \<and>
         (\<exists>s. EcsProjectStack sprops sprov = Inr s \<and>
            ingressRules (db_securityGroup (st_database s)) =
              [\<lparr>rule_peer = GroupPeer ''Jumphost/SecurityGroup'',
                rule_port = Tcp (instanceEndpoint_port sprov),
                rule_description = ''Allow jumphost to connect to database''\<rparr>,
               \<lparr>rule_peer = GroupPeer ''Application/Service/Service/SecurityGroup'',
                rule_port = Tcp (instanceEndpoint_port sprov),
                rule_description = ''Allow ECS service to connect to database''\<rparr>])"
proof -
  from assms(1) have fresh:
    "allowAllOutbound (db_securityGroup db0) = False"
    "ingressRules (db_securityGroup db0) = []"
    "sg_path (db_securityGroup db0) = cid @ ''/SecurityGroup''"
    by (auto simp add: DatabaseConstruct_def SecurityGroup_def Let_def)
  from allowConnectionsFromAll_rules [OF assms(2)] obtain new reqs where
    "ingressRules (db_securityGroup db) = new"
    "\<forall>r\<in>set new. \<exists>g\<in>set gs. requested_rule db0 g = Some r"
    "\<forall>g\<in>set gs. \<exists>q. requested_rule db0 g = Some q \<and> (\<exists>r\<in>set new. same_rule r q)"
    "distinct (map (\<lambda>r. (rule_peer r, rule_port r)) new)"
    "length new \<le> length gs"
    "calls1 = calls0 @ reqs"
    "list_all2 (\<lambda>g c. \<exists>q. requested_rule db0 g = Some q \<and>
                  c = AddIngressRule (cid @ ''/SecurityGroup'') q) gs reqs"
    "allowAllOutbound (db_securityGroup db) = False"
    unfolding fresh by auto
  with fresh EcsProjectStack_database_rules [of sprops sprov] show ?thesis
    by blast
qed

theorem C7_database_boundary_rules_witness:
  "(case DatabaseConstruct ''Database'' example_database_props example_provider [] of
      (db0, calls0) \<Rightarrow>
        (case allowConnectionsFromAll db0 (example_grants @ [example_bastion_grant]) calls0 of
           Inl e \<Rightarrow> False
         | Inr (db, calls1) \<Rightarrow>
             allowAllOutbound (db_securityGroup db0) = False \<and>
             ingressRules (db_securityGroup db0) = [] \<and>
             allowAllOutbound (db_securityGroup db) = False \<and>
             ingressRules (db_securityGroup db) =
               [\<lparr>rule_peer = GroupPeer ''Jumphost/SecurityGroup'', rule_port = Tcp 5432,
                 rule_description = ''Allow jumphost to connect to database''\<rparr>,
                \<lparr>rule_peer = GroupPeer ''Application/Service/Service/SecurityGroup'',
                 rule_port = Tcp 5432,
                 rule_description = ''Allow database connection''\<rparr>] \<and>
             length (ingressRules (db_securityGroup db)) \<le> 3 \<and>
             length calls1 = length calls0 + 3))"
proof -
  obtain db0 calls0 where
    a: "DatabaseConstruct ''Database'' example_database_props example_provider [] = (db0, calls0)"
    by (cases "DatabaseConstruct ''Database'' example_database_props example_provider []")
  note f = example_database_fresh [OF a]
  obtain bsrc bdesc where g: "example_bastion_grant = (bsrc, bdesc)"
    by (cases example_bastion_grant)
  obtain ssrc sdesc where h: "example_service_grant = (ssrc, sdesc)"
    by (cases example_service_grant)
  obtain db calls1 where
    b: "allowConnectionsFromAll db0 (example_grants @ [example_bastion_grant]) calls0 =
          Inr (db, calls1)" and
    rules: "ingressRules (db_securityGroup db) =
               [\<lparr>rule_peer = GroupPeer ''Jumphost/SecurityGroup'', rule_port = Tcp 5432,
                 rule_description = ''Allow jumphost to connect to database''\<rparr>,
                \<lparr>rule_peer = GroupPeer ''Application/Service/Service/SecurityGroup'',
                 rule_port = Tcp 5432,
                 rule_description = ''Allow database connection''\<rparr>]" and
    len: "length calls1 = length calls0 + 3"
    using f example_bastion_grant_rule [unfolded g] example_service_grant_rule [unfolded h]
    by (simp add: example_grants_def g h allowConnectionsFrom_requested same_rule_def)
  from C7_database_boundary_rules [OF a b] a b rules len show ?thesis
    by simp
qed

subsection \<open>Database: deletion protection\<close>

text \<open>
  C6, as stated: after a run with \<open>deletionProtection\<close> true, a run with the flag
  false leaves the instance's survive-teardown policy unchanged.  The constructor
  computes the removal policy from the flag of the current run: the first run declares
  \<open>RETAIN\<close>, the second \<open>DESTROY\<close>.
\<close>

theorem C6_toggle_counterexample:
  "removalPolicy (db_instance (fst (DatabaseConstruct ''Database''
       (example_database_props\<lparr>deletionProtection := Some True\<rparr>) example_provider []))) = RETAIN \<and>
   removalPolicy (db_instance (fst (DatabaseConstruct ''Database''
       (example_database_props\<lparr>deletionProtection := Some False\<rparr>) example_provider []))) = DESTROY \<and>
   removalPolicy (db_instance (fst (DatabaseConstruct ''Database''
       (example_database_props\<lparr>deletionProtection := Some False\<rparr>) example_provider []))) \<noteq>
   removalPolicy (db_instance (fst (DatabaseConstruct ''Database''
       (example_database_props\<lparr>deletionProtection := Some True\<rparr>) example_provider [])))"
  by (simp add: DatabaseConstruct_def SecurityGroup_def example_database_props_def Let_def)

text \<open>
  C6, amended: the removal policy of the instance follows the flag of the current run
  alone (\<open>RETAIN\<close> for true, \<open>DESTROY\<close> for false); a run with the flag toggled
  from true to false declares the same database component except for the instance's
  \<open>deletionProtection\<close> and removal policy, and issues the same calls.
\<close>

theorem C6_removal_policy_follows_flag:
  "(case DatabaseConstruct cid (props\<lparr>deletionProtection := Some True\<rparr>) prov calls of
      (db1, calls1) \<Rightarrow>
        (case DatabaseConstruct cid (props\<lparr>deletionProtection := Some False\<rparr>) prov calls of
           (db2, calls2) \<Rightarrow>
             inst_deletionProtection (db_instance db1) = True \<and>
             removalPolicy (db_instance db1) = RETAIN \<and>
             inst_deletionProtection (db_instance db2) = False \<and>
             removalPolicy (db_instance db2) = DESTROY \<and>
             db2 = db1\<lparr>db_instance :=
                        (db_instance db1)\<lparr>inst_deletionProtection := False,
                                           removalPolicy := DESTROY\<rparr>\<rparr> \<and>
             calls2 = calls1))"
  by (simp add: DatabaseConstruct_def SecurityGroup_def Let_def)

theorem C6_removal_policy_follows_flag_witness:
  "(case DatabaseConstruct ''Database''
           (example_database_props\<lparr>deletionProtection := Some True\<rparr>) example_provider [] of
      (db1, calls1) \<Rightarrow>
        (case DatabaseConstruct ''Database''
                (example_database_props\<lparr>deletionProtection := Some False\<rparr>) example_provider [] of
           (db2, calls2) \<Rightarrow>
             removalPolicy (db_instance db1) = RETAIN \<and>
             removalPolicy (db_instance db2) = DESTROY \<and>
             calls2 = calls1))"
  using C6_removal_policy_follows_flag
    [where cid = "''Database''" and props = example_database_props
       and prov = example_provider and calls = "[]"]
  by (simp split: prod.splits)

subsection \<open>Bastion: security boundary\<close>

text \<open>
  C8: with \<open>allowSshFromAnywhere\<close> false the bastion's security group has no ingress
  rule at all, so none on port 22; with the flag true or absent (the default is true)
  it has exactly one, from any IPv4 address on TCP port 22.
\<close>

theorem C8_bastion_ssh_rule:
  "(case JumphostConstruct cid props prov calls of
      (j, calls1) \<Rightarrow>
        (allowSshFromAnywhere props = Some False \<longrightarrow>
           ingressRules (jh_securityGroup j) = [] \<and>
           filter (\<lambda>r. rule_port r = Tcp 22) (ingressRules (jh_securityGroup j)) = []) \<and>
        (allowSshFromAnywhere props = Some True \<or> allowSshFromAnywhere props = None \<longrightarrow>
           ingressRules (jh_securityGroup j) =
             [\<lparr>rule_peer = AnyIpv4, rule_port = Tcp 22,
               rule_description = ''Allow SSH access from anywhere''\<rparr>]))"
  by (auto simp add: JumphostConstruct_def SecurityGroup_def addIngressRule_def Let_def
        split: option.splits)

theorem C8_bastion_ssh_rule_witness:
  "(case JumphostConstruct ''Jumphost'' (example_jumphost_props\<lparr>allowSshFromAnywhere := Some False\<rparr>)
           example_provider [] of
      (j, calls1) \<Rightarrow>
        filter (\<lambda>r. rule_port r = Tcp 22) (ingressRules (jh_securityGroup j)) = []) \<and>
   (case JumphostConstruct ''Jumphost'' example_jumphost_props example_provider [] of
      (j, calls1) \<Rightarrow>
        ingressRules (jh_securityGroup j) =
          [\<lparr>rule_peer = AnyIpv4, rule_port = Tcp 22,
            rule_description = ''Allow SSH access from anywhere''\<rparr>])"
  using C8_bastion_ssh_rule
    [where cid = "''Jumphost''"
       and props = "example_jumphost_props\<lparr>allowSshFromAnywhere := Some False\<rparr>"
       and prov = example_provider and calls = "[]"]
    C8_bastion_ssh_rule
    [where cid = "''Jumphost''" and props = example_jumphost_props
       and prov = example_provider and calls = "[]"]
  by (simp add: example_jumphost_props_def split: prod.splits)

text \<open>
  C10: for every bastion configuration the security group allows all outbound
  traffic, whereas the database's group never does.
\<close>

theorem C10_bastion_outbound_open:
  "allowAllOutbound (jh_securityGroup (fst (JumphostConstruct cid props prov calls))) = True \<and>
   allowAllOutbound (db_securityGroup (fst (DatabaseConstruct cid' props' prov' calls'))) = False"
  by (simp add: JumphostConstruct_def DatabaseConstruct_def SecurityGroup_def addIngressRule_def
        Let_def split: option.splits)

subsection \<open>Stack: outputs\<close>

text \<open>
  C5: for the domain \<open>example.com\<close> and the subdomain \<open>api\<close> the stack's constructor
  succeeds and publishes \<open>https://api.example.com\<close> under the output
  \<open>ApplicationURL\<close>.
\<close>

theorem C5_application_url:
  "\<exists>s. EcsProjectStack
          \<lparr>stack_domainName = Some ''example.com'', stack_subdomainName = Some ''api''\<rparr> prov = Inr s \<and>
        output_value s ''ApplicationURL'' = Some ''https://api.example.com''"
  using EcsProjectStack_outputs
    [of "\<lparr>stack_domainName = Some ''example.com'', stack_subdomainName = Some ''api''\<rparr>" prov]
  by simp

subsection \<open>Stack: reachability grants\<close>



end
